theory Spec2Isabelle
  imports Complex_Main "HOL-Library.Word"
begin

section \<open>Numbers, points and errors\<close>

text \<open>
  The morphing core of \<^verbatim>\<open>face-morph.js\<close> (class \<^verbatim>\<open>FaceMorpher\<close>) computes with
  JavaScript numbers. A finite number is modelled by a \<^typ>\<open>real\<close> and its arithmetic is
  exact: rounding and overflow of IEEE doubles are not part of this model. Point
  coordinates, blend ratios and affine coefficients are finite numbers, as in the data
  model of the specification (points of the canvas). The places where the code can leave
  the finite numbers from finite operands are modelled explicitly by \<open>jsnum\<close>: the
  unguarded reciprocal of \<^verbatim>\<open>pointInTriangle\<close> and the read of an array element that
  does not exist (\<^verbatim>\<open>undefined\<close>, which arithmetic turns into \<^verbatim>\<open>NaN\<close>).
\<close>

datatype jsnum = JNum real | JPosInf | JNegInf | JNaN

text \<open>
  \<^verbatim>\<open>a / b\<close> for finite operands. A zero divisor in this program is the result of a
  subtraction of two equal non-negative numbers, which is \<^verbatim>\<open>+0\<close> in IEEE arithmetic,
  so the sign of the quotient is the sign of the dividend.
\<close>

definition js_div :: "real \<Rightarrow> real \<Rightarrow> jsnum" where
  "js_div a b =
     (if b \<noteq> 0 then JNum (a / b)
      else if 0 < a then JPosInf
      else if a < 0 then JNegInf
      else JNaN)"

fun js_mul :: "jsnum \<Rightarrow> jsnum \<Rightarrow> jsnum" where
  "js_mul JNaN _ = JNaN"
| "js_mul _ JNaN = JNaN"
| "js_mul (JNum a) (JNum b) = JNum (a * b)"
| "js_mul (JNum a) JPosInf = (if 0 < a then JPosInf else if a < 0 then JNegInf else JNaN)"
| "js_mul (JNum a) JNegInf = (if 0 < a then JNegInf else if a < 0 then JPosInf else JNaN)"
| "js_mul JPosInf (JNum b) = (if 0 < b then JPosInf else if b < 0 then JNegInf else JNaN)"
| "js_mul JNegInf (JNum b) = (if 0 < b then JNegInf else if b < 0 then JPosInf else JNaN)"
| "js_mul JPosInf JPosInf = JPosInf"
| "js_mul JPosInf JNegInf = JNegInf"
| "js_mul JNegInf JPosInf = JNegInf"
| "js_mul JNegInf JNegInf = JPosInf"

fun js_add :: "jsnum \<Rightarrow> jsnum \<Rightarrow> jsnum" where
  "js_add JNaN _ = JNaN"
| "js_add _ JNaN = JNaN"
| "js_add (JNum a) (JNum b) = JNum (a + b)"
| "js_add (JNum a) JPosInf = JPosInf"
| "js_add (JNum a) JNegInf = JNegInf"
| "js_add JPosInf (JNum b) = JPosInf"
| "js_add JNegInf (JNum b) = JNegInf"
| "js_add JPosInf JPosInf = JPosInf"
| "js_add JNegInf JNegInf = JNegInf"
| "js_add JPosInf JNegInf = JNaN"
| "js_add JNegInf JPosInf = JNaN"

text \<open>\<^verbatim>\<open>a <= b\<close>: every comparison with \<^verbatim>\<open>NaN\<close> is false.\<close>

fun js_le :: "jsnum \<Rightarrow> jsnum \<Rightarrow> bool" where
  "js_le JNaN _ = False"
| "js_le _ JNaN = False"
| "js_le (JNum a) (JNum b) = (a \<le> b)"
| "js_le JNegInf _ = True"
| "js_le _ JPosInf = True"
| "js_le JPosInf _ = False"
| "js_le _ JNegInf = False"

definition js_ge :: "jsnum \<Rightarrow> jsnum \<Rightarrow> bool" where
  "js_ge a b = js_le b a"

definition js_isFinite :: "jsnum \<Rightarrow> bool" where
  "js_isFinite v = (case v of JNum _ \<Rightarrow> True | _ \<Rightarrow> False)"

text \<open>A point object \<^verbatim>\<open>{ x, y }\<close>.\<close>

record point =
  pt_x :: real
  pt_y :: real

text \<open>A triangle given by its vertices: the three-element arrays \<^verbatim>\<open>[p0, p1, p2]\<close>.\<close>

type_synonym triangle = "point \<times> point \<times> point"

text \<open>
  The only exception the core can raise: reading a property of \<^verbatim>\<open>undefined\<close>, a
  \<^verbatim>\<open>TypeError\<close>.
\<close>

datatype js_error = TypeError

text \<open>The object: \<^verbatim>\<open>this.outputWidth\<close> and \<^verbatim>\<open>this.outputHeight\<close>.\<close>

record FaceMorpher =
  outputWidth :: nat
  outputHeight :: nat

definition constructor :: FaceMorpher where
  "constructor = \<lparr>outputWidth = 400, outputHeight = 400\<rparr>"

section \<open>Point interpolation\<close>

text \<open>
  \<^verbatim>\<open>interpolatePoints\<close> maps over \<^verbatim>\<open>pts1\<close> and reads \<^verbatim>\<open>pts2[i]\<close> at the same index. Past
  the end of \<^verbatim>\<open>pts2\<close> the element is \<^verbatim>\<open>undefined\<close> and \<^verbatim>\<open>pts2[i].x\<close> throws; elements
  of \<^verbatim>\<open>pts2\<close> past the end of \<^verbatim>\<open>pts1\<close> are never read.
\<close>

fun interpolatePoints :: "point list \<Rightarrow> point list \<Rightarrow> real \<Rightarrow> js_error + point list" where
  "interpolatePoints [] pts2 ratio = Inr []"
| "interpolatePoints (pt # pts1) [] ratio = Inl TypeError"
| "interpolatePoints (pt # pts1) (pt2 # pts2) ratio =
     (case interpolatePoints pts1 pts2 ratio of
        Inl err \<Rightarrow> Inl err
      | Inr rest \<Rightarrow>
          Inr (\<lparr>pt_x = pt_x pt * (1 - ratio) + pt_x pt2 * ratio,
                pt_y = pt_y pt * (1 - ratio) + pt_y pt2 * ratio\<rparr> # rest))"

section \<open>Affine maps\<close>

record affine =
  af_a :: real
  af_b :: real
  af_c :: real
  af_d :: real
  af_e :: real
  af_f :: real


fun computeAffine :: "triangle \<Rightarrow> triangle \<Rightarrow> affine" where
  "computeAffine (s0, s1, s2) (d0, d1, d2) =
     (let x1 = pt_x s0; y1 = pt_y s0;
          x2 = pt_x s1; y2 = pt_y s1;
          x3 = pt_x s2; y3 = pt_y s2;
          u1 = pt_x d0; v1 = pt_y d0;
          u2 = pt_x d1; v2 = pt_y d1;
          u3 = pt_x d2; v3 = pt_y d2;
          denom = (x1 - x3) * (y2 - y3) - (x2 - x3) * (y1 - y3)
      in if \<bar>denom\<bar> < 1 / 10 ^ 10 then
           \<lparr>af_a = 1, af_b = 0, af_c = 0, af_d = 0, af_e = 1, af_f = 0\<rparr>
         else
           (let a = ((u1 - u3) * (y2 - y3) - (u2 - u3) * (y1 - y3)) / denom;
                b = ((u2 - u3) * (x1 - x3) - (u1 - u3) * (x2 - x3)) / denom;
                c = u3 - a * x3 - b * y3;
                d = ((v1 - v3) * (y2 - y3) - (v2 - v3) * (y1 - y3)) / denom;
                e = ((v2 - v3) * (x1 - x3) - (v1 - v3) * (x2 - x3)) / denom;
                f = v3 - d * x3 - e * y3
            in \<lparr>af_a = a, af_b = b, af_c = c, af_d = d, af_e = e, af_f = f\<rparr>))"

definition applyAffine :: "affine \<Rightarrow> real \<Rightarrow> real \<Rightarrow> point" where
  "applyAffine M x y =
     \<lparr>pt_x = af_a M * x + af_b M * y + af_c M,
      pt_y = af_d M * x + af_e M * y + af_f M\<rparr>"



section \<open>Point-in-triangle test\<close>

text \<open>
  The barycentric test. The reciprocal \<^verbatim>\<open>1 / (dot00 * dot11 - dot01 * dot01)\<close> is not
  guarded, so \<open>inv\<close>, \<open>u\<close> and \<open>v\<close> are \<open>jsnum\<close>s.
\<close>

fun pointInTriangle :: "point \<Rightarrow> triangle \<Rightarrow> bool" where
  "pointInTriangle p (t0, t1, t2) =
     (let v0 = \<lparr>pt_x = pt_x t2 - pt_x t0, pt_y = pt_y t2 - pt_y t0\<rparr>;
          v1 = \<lparr>pt_x = pt_x t1 - pt_x t0, pt_y = pt_y t1 - pt_y t0\<rparr>;
          v2 = \<lparr>pt_x = pt_x p - pt_x t0, pt_y = pt_y p - pt_y t0\<rparr>;
          dot00 = pt_x v0 * pt_x v0 + pt_y v0 * pt_y v0;
          dot01 = pt_x v0 * pt_x v1 + pt_y v0 * pt_y v1;
          dot02 = pt_x v0 * pt_x v2 + pt_y v0 * pt_y v2;
          dot11 = pt_x v1 * pt_x v1 + pt_y v1 * pt_y v1;
          dot12 = pt_x v1 * pt_x v2 + pt_y v1 * pt_y v2;
          inv = js_div 1 (dot00 * dot11 - dot01 * dot01);
          u = js_mul (JNum (dot11 * dot02 - dot01 * dot12)) inv;
          v = js_mul (JNum (dot00 * dot12 - dot01 * dot02)) inv
      in js_ge u (JNum 0) \<and> js_ge v (JNum 0) \<and> js_le (js_add u v) (JNum 1))"


section \<open>Bilinear sampling\<close>

text \<open>
  \<^verbatim>\<open>imgData.data\<close> is a \<^verbatim>\<open>Uint8ClampedArray\<close>: a list of bytes. Reading an index
  outside the array gives \<^verbatim>\<open>undefined\<close>, which the arithmetic that follows turns into
  \<^verbatim>\<open>NaN\<close>.
\<close>

type_synonym buffer = "8 word list"

definition data_get :: "buffer \<Rightarrow> int \<Rightarrow> jsnum" where
  "data_get d idx =
     (if 0 \<le> idx \<and> idx < int (length d) then JNum (real (unat (d ! nat idx))) else JNaN)"

record color =
  col_r :: jsnum
  col_g :: jsnum
  col_b :: jsnum

text \<open>The clamped coordinate of \<^verbatim>\<open>sampleBilinear\<close>: \<^verbatim>\<open>Math.max(0, Math.min(w - 1.001, x))\<close>.\<close>

definition clampCoord :: "nat \<Rightarrow> real \<Rightarrow> real" where
  "clampCoord w x = max 0 (min (real w - 1001 / 1000) x)"

text \<open>The index \<^verbatim>\<open>idx\<close> of \<^verbatim>\<open>getPixel(px, py)\<close>.\<close>

definition pixelIndex :: "nat \<Rightarrow> int \<Rightarrow> int \<Rightarrow> int" where
  "pixelIndex w px py = (py * int w + px) * 4"

definition getPixel :: "buffer \<Rightarrow> nat \<Rightarrow> int \<Rightarrow> int \<Rightarrow> color" where
  "getPixel d w px py =
     (let idx = pixelIndex w px py
      in \<lparr>col_r = data_get d idx, col_g = data_get d (idx + 1), col_b = data_get d (idx + 2)\<rparr>)"

text \<open>One channel of the result:
  \<^verbatim>\<open>(p00 * (1 - fx) + p10 * fx) * (1 - fy) + (p01 * (1 - fx) + p11 * fx) * fy\<close>.\<close>

definition bilerp :: "jsnum \<Rightarrow> jsnum \<Rightarrow> jsnum \<Rightarrow> jsnum \<Rightarrow> real \<Rightarrow> real \<Rightarrow> jsnum" where
  "bilerp p00 p10 p01 p11 fx fy =
     js_add
       (js_mul (js_add (js_mul p00 (JNum (1 - fx))) (js_mul p10 (JNum fx))) (JNum (1 - fy)))
       (js_mul (js_add (js_mul p01 (JNum (1 - fx))) (js_mul p11 (JNum fx))) (JNum fy))"


definition sampleBilinear :: "FaceMorpher \<Rightarrow> buffer \<Rightarrow> real \<Rightarrow> real \<Rightarrow> color" where
  "sampleBilinear m d x y =
     (let w = outputWidth m; h = outputHeight m;
          x = clampCoord w x; y = clampCoord h y;
          x0 = \<lfloor>x\<rfloor>; y0 = \<lfloor>y\<rfloor>;
          x1 = min (x0 + 1) (int w - 1);
          y1 = min (y0 + 1) (int h - 1);
          fx = x - real_of_int x0;
          fy = y - real_of_int y0;
          p00 = getPixel d w x0 y0;
          p10 = getPixel d w x1 y0;
          p01 = getPixel d w x0 y1;
          p11 = getPixel d w x1 y1
      in \<lparr>col_r = bilerp (col_r p00) (col_r p10) (col_r p01) (col_r p11) fx fy,
          col_g = bilerp (col_g p00) (col_g p10) (col_g p01) (col_g p11) fx fy,
          col_b = bilerp (col_b p00) (col_b p10) (col_b p01) (col_b p11) fx fy\<rparr>)"


section \<open>Warping one triangle\<close>

text \<open>
  A store of pixel buffers: \<^verbatim>\<open>imgData1\<close>, \<^verbatim>\<open>imgData2\<close> and \<^verbatim>\<open>outputData\<close> are
  references to \<^verbatim>\<open>ImageData\<close> objects, modelled by their addresses.
\<close>

type_synonym store = "nat \<Rightarrow> buffer"

text \<open>
  A write to a \<^verbatim>\<open>Uint8ClampedArray\<close> element converts the number: \<^verbatim>\<open>NaN\<close> becomes 0,
  the value is clamped to 0..255 and rounded to the nearest integer, ties to even. A write
  past the end of the array is ignored, as \<open>list_update\<close> does.
\<close>

definition toUint8Clamp :: "jsnum \<Rightarrow> 8 word" where
  "toUint8Clamp v =
     (case v of
        JNaN \<Rightarrow> 0
      | JPosInf \<Rightarrow> 255
      | JNegInf \<Rightarrow> 0
      | JNum r \<Rightarrow>
          if r \<le> 0 then 0
          else if 255 \<le> r then 255
          else (let f = \<lfloor>r\<rfloor>
                in if real_of_int f + 1 / 2 < r then word_of_int (f + 1)
                   else if r < real_of_int f + 1 / 2 then word_of_int f
                   else if even f then word_of_int f
                   else word_of_int (f + 1)))"

text \<open>\<^verbatim>\<open>c1 * (1 - ratio) + c2 * ratio\<close> on sampled channels.\<close>

definition blend :: "jsnum \<Rightarrow> jsnum \<Rightarrow> real \<Rightarrow> jsnum" where
  "blend c1 c2 ratio = js_add (js_mul c1 (JNum (1 - ratio))) (js_mul c2 (JNum ratio))"

definition writeData :: "store \<Rightarrow> nat \<Rightarrow> nat \<Rightarrow> jsnum \<Rightarrow> store" where
  "writeData st b idx v = st(b := (st b)[idx := toUint8Clamp v])"

text \<open>The body of the inner loop of \<^verbatim>\<open>warpTriangle\<close>, for the pixel \<open>(x, y)\<close>.\<close>

definition warpPixel ::
  "FaceMorpher \<Rightarrow> nat \<Rightarrow> affine \<Rightarrow> nat \<Rightarrow> affine \<Rightarrow> nat \<Rightarrow> triangle \<Rightarrow> real \<Rightarrow> int \<Rightarrow> int
     \<Rightarrow> store \<Rightarrow> store" where
  "warpPixel m imgData1 M1 imgData2 M2 outputData dstTri ratio y x st =
     (if x < 0 \<or> x \<ge> int (outputWidth m) \<or> y < 0 \<or> y \<ge> int (outputHeight m) then st
      else if \<not> pointInTriangle \<lparr>pt_x = real_of_int x, pt_y = real_of_int y\<rparr> dstTri then st
      else
        (let src1 = applyAffine M1 (real_of_int x) (real_of_int y);
             src2 = applyAffine M2 (real_of_int x) (real_of_int y);
             color1 = sampleBilinear m (st imgData1) (pt_x src1) (pt_y src1);
             color2 = sampleBilinear m (st imgData2) (pt_x src2) (pt_y src2);
             idx = nat ((y * int (outputWidth m) + x) * 4);
             st = writeData st outputData idx (blend (col_r color1) (col_r color2) ratio);
             st = writeData st outputData (idx + 1) (blend (col_g color1) (col_g color2) ratio);
             st = writeData st outputData (idx + 2) (blend (col_b color1) (col_b color2) ratio);
             st = writeData st outputData (idx + 3) (JNum 255)
         in st))"

definition warpTriangle ::
  "FaceMorpher \<Rightarrow> nat \<Rightarrow> triangle \<Rightarrow> nat \<Rightarrow> triangle \<Rightarrow> nat \<Rightarrow> triangle \<Rightarrow> real
     \<Rightarrow> store \<Rightarrow> store" where
  "warpTriangle m imgData1 srcTri1 imgData2 srcTri2 outputData dstTri ratio st =
     (case dstTri of (d0, d1, d2) \<Rightarrow>
        (let minX = \<lfloor>min (min (pt_x d0) (pt_x d1)) (pt_x d2)\<rfloor>;
             maxX = \<lceil>max (max (pt_x d0) (pt_x d1)) (pt_x d2)\<rceil>;
             minY = \<lfloor>min (min (pt_y d0) (pt_y d1)) (pt_y d2)\<rfloor>;
             maxY = \<lceil>max (max (pt_y d0) (pt_y d1)) (pt_y d2)\<rceil>;
             M1 = computeAffine dstTri srcTri1;
             M2 = computeAffine dstTri srcTri2
         in fold (\<lambda>y. fold (warpPixel m imgData1 M1 imgData2 M2 outputData dstTri ratio y)
                          [minX..maxX])
              [minY..maxY] st))"

text \<open>The byte indices of the output buffer that belong to the pixel \<open>(x, y)\<close>.\<close>

definition pixelBytes :: "FaceMorpher \<Rightarrow> int \<Rightarrow> int \<Rightarrow> nat set" where
  "pixelBytes m x y =
     (let idx = nat ((y * int (outputWidth m) + x) * 4) in {idx, idx + 1, idx + 2, idx + 3})"

text \<open>
  The pixels \<^verbatim>\<open>warpTriangle\<close> may write: inside the canvas and inside the destination
  triangle by \<open>pointInTriangle\<close>.
\<close>

definition coveredPixel :: "FaceMorpher \<Rightarrow> triangle \<Rightarrow> int \<Rightarrow> int \<Rightarrow> bool" where
  "coveredPixel m dstTri x y =
     (0 \<le> x \<and> x < int (outputWidth m) \<and> 0 \<le> y \<and> y < int (outputHeight m) \<and>
      pointInTriangle \<lparr>pt_x = real_of_int x, pt_y = real_of_int y\<rparr> dstTri)"

section \<open>Delaunay triangulation\<close>

text \<open>
  \<^verbatim>\<open>Math.min(...vs)\<close> and \<^verbatim>\<open>Math.max(...vs)\<close> of a non-empty array of finite numbers.
  \<^verbatim>\<open>computeDelaunay\<close> calls them on at least three numbers.
\<close>

fun math_min :: "real list \<Rightarrow> real" where
  "math_min (v # vs) = fold min vs v"

fun math_max :: "real list \<Rightarrow> real" where
  "math_max (v # vs) = fold max vs v"

text \<open>The vertices \<^verbatim>\<open>p1\<close>, \<^verbatim>\<open>p2\<close>, \<^verbatim>\<open>p3\<close> of the super triangle.\<close>

definition superTriangle :: "point list \<Rightarrow> triangle" where
  "superTriangle points =
     (let minX = math_min (map pt_x points);
          maxX = math_max (map pt_x points);
          minY = math_min (map pt_y points);
          maxY = math_max (map pt_y points);
          dx = maxX - minX;
          dy = maxY - minY;
          deltaMax = max dx dy * 2;
          p1 = \<lparr>pt_x = minX - deltaMax, pt_y = minY - deltaMax\<rparr>;
          p2 = \<lparr>pt_x = minX + deltaMax * 2, pt_y = minY - deltaMax\<rparr>;
          p3 = \<lparr>pt_x = minX + dx / 2, pt_y = maxY + deltaMax * 2\<rparr>
      in (p1, p2, p3))"

definition inCircumcircle :: "point \<Rightarrow> point \<Rightarrow> point \<Rightarrow> point \<Rightarrow> bool" where
  "inCircumcircle p a b c =
     (let ax = pt_x a - pt_x p;
          ay = pt_y a - pt_y p;
          bx = pt_x b - pt_x p;
          by = pt_y b - pt_y p;
          cx = pt_x c - pt_x p;
          cy = pt_y c - pt_y p;
          det = (ax * ax + ay * ay) * (bx * cy - cx * by) -
                (bx * bx + by * by) * (ax * cy - cx * ay) +
                (cx * cx + cy * cy) * (ax * by - bx * ay);
          orient = (pt_x a - pt_x c) * (pt_y b - pt_y c) - (pt_y a - pt_y c) * (pt_x b - pt_x c)
      in if orient > 0 then det > 0 else det < 0)"

text \<open>A working triangle \<^verbatim>\<open>{ i, j, k }\<close> of indices into \<^verbatim>\<open>allPoints\<close>.\<close>

record idxtri =
  tri_i :: nat
  tri_j :: nat
  tri_k :: nat

definition edgesOf :: "idxtri \<Rightarrow> (nat \<times> nat) list" where
  "edgesOf t = [(tri_i t, tri_j t), (tri_j t, tri_k t), (tri_k t, tri_i t)]"

definition sameEdge :: "nat \<times> nat \<Rightarrow> nat \<times> nat \<Rightarrow> bool" where
  "sameEdge edge oe =
     ((fst edge = fst oe \<and> snd edge = snd oe) \<or> (fst edge = snd oe \<and> snd edge = fst oe))"

text \<open>
  The test of the first inner loop. Every index of a working triangle is below the
  length of \<^verbatim>\<open>allPoints\<close> (lemma \<open>insertLoop_bound\<close> below), so the three reads are
  of elements that exist.
\<close>

definition isBad :: "point list \<Rightarrow> point \<Rightarrow> idxtri \<Rightarrow> bool" where
  "isBad allPoints pt t =
     inCircumcircle pt (allPoints ! tri_i t) (allPoints ! tri_j t) (allPoints ! tri_k t)"

text \<open>
  \<^verbatim>\<open>other === tri\<close> compares object identity, and every element of \<^verbatim>\<open>badTriangles\<close> is
  an object of its own: the other triangles are the elements at the other positions.
\<close>

definition otherTriangles :: "idxtri list \<Rightarrow> nat \<Rightarrow> idxtri list" where
  "otherTriangles badTriangles q = take q badTriangles @ drop (Suc q) badTriangles"

definition shared :: "nat \<times> nat \<Rightarrow> idxtri list \<Rightarrow> bool" where
  "shared edge others = list_ex (\<lambda>other. list_ex (sameEdge edge) (edgesOf other)) others"

definition boundaryPolygon :: "idxtri list \<Rightarrow> (nat \<times> nat) list" where
  "boundaryPolygon badTriangles =
     concat (map (\<lambda>q. filter (\<lambda>edge. \<not> shared edge (otherTriangles badTriangles q))
                        (edgesOf (badTriangles ! q)))
               [0..<length badTriangles])"

text \<open>
  One round of the outer loop, for the point of index \<open>i\<close>. The filter
  \<^verbatim>\<open>!badTriangles.includes(t)\<close> keeps the objects that were not pushed to
  \<^verbatim>\<open>badTriangles\<close>, which are those that failed the circumcircle test.
\<close>

definition insertPoint :: "point list \<Rightarrow> point list \<Rightarrow> nat \<Rightarrow> idxtri list \<Rightarrow> idxtri list" where
  "insertPoint points allPoints i triangles =
     (let pt = points ! i;
          badTriangles = filter (isBad allPoints pt) triangles;
          polygon = boundaryPolygon badTriangles;
          triangles = filter (\<lambda>t. \<not> isBad allPoints pt t) triangles
      in triangles @ map (\<lambda>edge. \<lparr>tri_i = fst edge, tri_j = snd edge, tri_k = i\<rparr>) polygon)"

definition insertLoop :: "point list \<Rightarrow> point list \<Rightarrow> nat list \<Rightarrow> idxtri list \<Rightarrow> idxtri list" where
  "insertLoop points allPoints is triangles = fold (insertPoint points allPoints) is triangles"

definition computeDelaunay :: "point list \<Rightarrow> (nat \<times> nat \<times> nat) list" where
  "computeDelaunay points =
     (let n = length points
      in if n < 3 then []
         else
           (case superTriangle points of (p1, p2, p3) \<Rightarrow>
              (let allPoints = points @ [p1, p2, p3];
                   triangles = [\<lparr>tri_i = n, tri_j = n + 1, tri_k = n + 2\<rparr>];
                   triangles = insertLoop points allPoints [0..<n] triangles;
                   triangles = filter (\<lambda>t. tri_i t < n \<and> tri_j t < n \<and> tri_k t < n) triangles
               in map (\<lambda>t. (tri_i t, tri_j t, tri_k t)) triangles)))"

text \<open>
  A point strictly inside a triangle: strictly on the same side of the three edges.
  This is the reading of "in its interior" used for the super triangle.
\<close>

definition cross :: "point \<Rightarrow> point \<Rightarrow> point \<Rightarrow> real" where
  "cross a b p = (pt_x b - pt_x a) * (pt_y p - pt_y a) - (pt_y b - pt_y a) * (pt_x p - pt_x a)"


section \<open>The orchestrator\<close>

text \<open>
  An image element with its pixel dimensions. The division of \<^verbatim>\<open>normalizeLandmarks\<close> is
  by the width and the height of a decoded image, which are positive.
\<close>

record image =
  img_width :: nat
  img_height :: nat

definition normalizeLandmarks :: "FaceMorpher \<Rightarrow> point list \<Rightarrow> nat \<Rightarrow> nat \<Rightarrow> point list" where
  "normalizeLandmarks m landmarks imgWidth imgHeight =
     map (\<lambda>pt. \<lparr>pt_x = (pt_x pt / real imgWidth) * real (outputWidth m),
                 pt_y = (pt_y pt / real imgHeight) * real (outputHeight m)\<rparr>) landmarks"

definition getBoundaryPoints :: "FaceMorpher \<Rightarrow> point list" where
  "getBoundaryPoints m =
     (let w = real (outputWidth m); h = real (outputHeight m)
      in [\<lparr>pt_x = 0, pt_y = 0\<rparr>,
          \<lparr>pt_x = w / 2, pt_y = 0\<rparr>,
          \<lparr>pt_x = w - 1, pt_y = 0\<rparr>,
          \<lparr>pt_x = w - 1, pt_y = h / 2\<rparr>,
          \<lparr>pt_x = w - 1, pt_y = h - 1\<rparr>,
          \<lparr>pt_x = w / 2, pt_y = h - 1\<rparr>,
          \<lparr>pt_x = 0, pt_y = h - 1\<rparr>,
          \<lparr>pt_x = 0, pt_y = h / 2\<rparr>])"

text \<open>
  \<^verbatim>\<open>[pts[i], pts[j], pts[k]]\<close>: an element that does not exist is \<^verbatim>\<open>undefined\<close>, and
  \<^verbatim>\<open>warpTriangle\<close> throws on its first read of such a vertex, before it writes anything.
\<close>

fun vertices :: "point list \<Rightarrow> nat \<times> nat \<times> nat \<Rightarrow> js_error + triangle" where
  "vertices pts (i, j, k) =
     (if i < length pts \<and> j < length pts \<and> k < length pts
      then Inr (pts ! i, pts ! j, pts ! k) else Inl TypeError)"

text \<open>The loop of \<^verbatim>\<open>morph\<close> over the triangles.\<close>

fun warpAll ::
  "FaceMorpher \<Rightarrow> point list \<Rightarrow> point list \<Rightarrow> point list \<Rightarrow> nat \<Rightarrow> nat \<Rightarrow> nat \<Rightarrow> real
     \<Rightarrow> (nat \<times> nat \<times> nat) list \<Rightarrow> store \<Rightarrow> js_error + store" where
  "warpAll m allPts1 allPts2 avgPts imgData1 imgData2 outputData ratio [] st = Inr st"
| "warpAll m allPts1 allPts2 avgPts imgData1 imgData2 outputData ratio (t # ts) st =
     (case vertices allPts1 t of
        Inl err \<Rightarrow> Inl err
      | Inr srcTri1 \<Rightarrow>
          (case vertices allPts2 t of
             Inl err \<Rightarrow> Inl err
           | Inr srcTri2 \<Rightarrow>
               (case vertices avgPts t of
                  Inl err \<Rightarrow> Inl err
                | Inr dstTri \<Rightarrow>
                    warpAll m allPts1 allPts2 avgPts imgData1 imgData2 outputData ratio ts
                      (warpTriangle m imgData1 srcTri1 imgData2 srcTri2 outputData dstTri
                         ratio st))))"

text \<open>
  \<^verbatim>\<open>morph\<close>. The canvas calls are outside the core: \<open>data1\<close> and \<open>data2\<close> are the pixels
  that \<^verbatim>\<open>getImageData\<close> returns for the two scaled images, and \<^verbatim>\<open>createImageData\<close>
  gives a buffer of zeros. The three buffers live at the addresses 0, 1 and 2.
\<close>

definition morph ::
  "FaceMorpher \<Rightarrow> image \<Rightarrow> buffer \<Rightarrow> image \<Rightarrow> buffer \<Rightarrow> point list \<Rightarrow> point list \<Rightarrow> real
     \<Rightarrow> js_error + buffer" where
  "morph m img1 data1 img2 data2 landmarks1 landmarks2 ratio =
     (let pts1 = normalizeLandmarks m landmarks1 (img_width img1) (img_height img1);
          pts2 = normalizeLandmarks m landmarks2 (img_width img2) (img_height img2);
          extraPoints = getBoundaryPoints m;
          allPts1 = pts1 @ extraPoints;
          allPts2 = pts2 @ extraPoints
      in case interpolatePoints allPts1 allPts2 ratio of
           Inl err \<Rightarrow> Inl err
         | Inr avgPts \<Rightarrow>
             (let triangles = computeDelaunay avgPts;
                  st = (\<lambda>_. [])(0 := data1, 1 := data2,
                         2 := replicate (outputWidth m * outputHeight m * 4) 0)
              in case warpAll m allPts1 allPts2 avgPts 0 1 2 ratio triangles st of
                   Inl err \<Rightarrow> Inl err
                 | Inr st \<Rightarrow> Inr (st 2)))"

section \<open>Predicates used in the statements\<close>


text \<open>A byte index of the output buffer that belongs to no pixel \<open>warpTriangle\<close> may write.\<close>

definition untouched :: "FaceMorpher \<Rightarrow> triangle \<Rightarrow> nat \<Rightarrow> bool" where
  "untouched m dstTri q = (\<forall>x y. coveredPixel m dstTri x y \<longrightarrow> q \<notin> pixelBytes m x y)"

text \<open>
  The invariant of the insertion loop before the point of index \<open>i\<close> is inserted, for
  \<open>n\<close> input points: the vertices of a working triangle are points already inserted or
  vertices of the super triangle, and they are pairwise distinct.
\<close>

definition validTri :: "nat \<Rightarrow> nat \<Rightarrow> idxtri \<Rightarrow> bool" where
  "validTri n i t =
     ((\<forall>v \<in> {tri_i t, tri_j t, tri_k t}. v < i \<or> (n \<le> v \<and> v < n + 3)) \<and>
      tri_i t \<noteq> tri_j t \<and> tri_j t \<noteq> tri_k t \<and> tri_i t \<noteq> tri_k t)"

section \<open>Predicates for the circumcircle property\<close>

text \<open>
  The determinant \<^verbatim>\<open>det\<close> of \<^verbatim>\<open>inCircumcircle\<close>, as a function of the point and the
  three vertices.
\<close>

definition circleDet :: "point \<Rightarrow> point \<Rightarrow> point \<Rightarrow> point \<Rightarrow> real" where
  "circleDet p a b c =
     (let ax = pt_x a - pt_x p;
          ay = pt_y a - pt_y p;
          bx = pt_x b - pt_x p;
          by = pt_y b - pt_y p;
          cx = pt_x c - pt_x p;
          cy = pt_y c - pt_y p
      in (ax * ax + ay * ay) * (bx * cy - cx * by) -
         (bx * bx + by * by) * (ax * cy - cx * ay) +
         (cx * cx + cy * cy) * (ax * by - bx * ay))"

text \<open>
  Strictly inside, and strictly outside, the circle through three points: the sign of the
  determinant against the orientation. For a triangle that is not degenerate, \<open>inside\<close>
  is what \<open>inCircumcircle\<close> computes (lemma \<open>inCircumcircle_inside\<close>).
\<close>

definition inside :: "point \<Rightarrow> point \<Rightarrow> point \<Rightarrow> point \<Rightarrow> bool" where
  "inside p a b c = (0 < cross a b c * circleDet p a b c)"




definition sameSide :: "point \<Rightarrow> point \<Rightarrow> point \<Rightarrow> point \<Rightarrow> bool" where
  "sameSide u v a b = (0 < cross u v a * cross u v b)"

text \<open>The vertex set of a working triangle, and its decomposition into an edge and the
  vertex opposite to it.\<close>

definition verts :: "idxtri \<Rightarrow> nat set" where
  "verts t = {tri_i t, tri_j t, tri_k t}"

definition corners :: "idxtri \<Rightarrow> nat \<Rightarrow> nat \<Rightarrow> nat \<Rightarrow> bool" where
  "corners t u v w = (verts t = {u, v, w} \<and> u \<noteq> v \<and> v \<noteq> w \<and> u \<noteq> w)"

definition properTri :: "idxtri \<Rightarrow> bool" where
  "properTri t = (tri_i t \<noteq> tri_j t \<and> tri_j t \<noteq> tri_k t \<and> tri_i t \<noteq> tri_k t)"

text \<open>The triangles of a list that have the edge \<open>u v\<close>.\<close>

definition edgeTris :: "idxtri list \<Rightarrow> nat \<Rightarrow> nat \<Rightarrow> idxtri set" where
  "edgeTris ts u v = {t \<in> set ts. u \<in> verts t \<and> v \<in> verts t}"

definition triInside :: "point list \<Rightarrow> point \<Rightarrow> idxtri \<Rightarrow> bool" where
  "triInside A p t = inside p (A ! tri_i t) (A ! tri_j t) (A ! tri_k t)"

definition triCross :: "point list \<Rightarrow> idxtri \<Rightarrow> real" where
  "triCross A t = cross (A ! tri_i t) (A ! tri_j t) (A ! tri_k t)"






definition badTris :: "point list \<Rightarrow> point \<Rightarrow> idxtri list \<Rightarrow> idxtri list" where
  "badTris A p ts = filter (triInside A p) ts"


definition bnd :: "point list \<Rightarrow> point \<Rightarrow> idxtri list \<Rightarrow> nat \<Rightarrow> nat \<Rightarrow> bool" where
  "bnd A p ts c w =
     ((c, w) \<in> set (boundaryPolygon (badTris A p ts)) \<or>
      (w, c) \<in> set (boundaryPolygon (badTris A p ts)))"


text \<open>Inputs used for the concrete instances below.\<close>

definition P3 :: "point list" where
  "P3 = [\<lparr>pt_x = 0, pt_y = 0\<rparr>, \<lparr>pt_x = 1, pt_y = 0\<rparr>, \<lparr>pt_x = 0, pt_y = 1\<rparr>]"


definition canvas2 :: FaceMorpher where
  "canvas2 = \<lparr>outputWidth = 2, outputHeight = 2\<rparr>"

section \<open>Properties of the affine solver\<close>









section \<open>Properties of the point interpolator\<close>

text \<open>
  C4. For point sequences of equal length, \<open>interpolatePoints pts1 pts2 0\<close> returns
  \<open>pts1\<close> and \<open>interpolatePoints pts1 pts2 1\<close> returns \<open>pts2\<close>, coordinate by coordinate.
\<close>

theorem interpolatePoints_endpoints:
  "length pts1 = length pts2 \<Longrightarrow>
     interpolatePoints pts1 pts2 0 = Inr pts1 \<and> interpolatePoints pts1 pts2 1 = Inr pts2"
  by (induction pts1 pts2 rule: list_induct2) simp_all

theorem interpolatePoints_endpoints_witness:
  "length [\<lparr>pt_x = 0, pt_y = 7\<rparr>, \<lparr>pt_x = 1, pt_y = 2\<rparr>]
     = length [\<lparr>pt_x = 3, pt_y = 4\<rparr>, \<lparr>pt_x = 5, pt_y = 6\<rparr>] \<and>
   interpolatePoints [\<lparr>pt_x = 0, pt_y = 7\<rparr>, \<lparr>pt_x = 1, pt_y = 2\<rparr>]
     [\<lparr>pt_x = 3, pt_y = 4\<rparr>, \<lparr>pt_x = 5, pt_y = 6\<rparr>] 0
     = Inr [\<lparr>pt_x = 0, pt_y = 7\<rparr>, \<lparr>pt_x = 1, pt_y = 2\<rparr>] \<and>
   interpolatePoints [\<lparr>pt_x = 0, pt_y = 7\<rparr>, \<lparr>pt_x = 1, pt_y = 2\<rparr>]
     [\<lparr>pt_x = 3, pt_y = 4\<rparr>, \<lparr>pt_x = 5, pt_y = 6\<rparr>] 1
     = Inr [\<lparr>pt_x = 3, pt_y = 4\<rparr>, \<lparr>pt_x = 5, pt_y = 6\<rparr>]"
  using interpolatePoints_endpoints
    [of "[\<lparr>pt_x = 0, pt_y = 7\<rparr>, \<lparr>pt_x = 1, pt_y = 2\<rparr>]"
        "[\<lparr>pt_x = 3, pt_y = 4\<rparr>, \<lparr>pt_x = 5, pt_y = 6\<rparr>]"]
  by simp

lemma interpolatePoints_short:
  "length pts2 < length pts1 \<Longrightarrow> interpolatePoints pts1 pts2 ratio = Inl TypeError"
  by (induction pts1 pts2 ratio rule: interpolatePoints.induct) simp_all

text \<open>
  C9. When the first point sequence is longer than the second, \<open>interpolatePoints\<close> does
  not return a point sequence: it throws a \<open>TypeError\<close>. The same holds for \<open>morph\<close> when
  \<open>landmarks1\<close> is longer than \<open>landmarks2\<close>: the call ends with that exception and returns
  no buffer.
\<close>

theorem mismatch_TypeError:
  "(length pts2 < length pts1 \<longrightarrow> interpolatePoints pts1 pts2 ratio = Inl TypeError) \<and>
   (length landmarks2 < length landmarks1 \<longrightarrow>
      morph m img1 data1 img2 data2 landmarks1 landmarks2 ratio = Inl TypeError)"
proof -
  have "morph m img1 data1 img2 data2 landmarks1 landmarks2 ratio = Inl TypeError"
    if "length landmarks2 < length landmarks1"
  proof -
    from that have
      "length (normalizeLandmarks m landmarks2 (img_width img2) (img_height img2)
                 @ getBoundaryPoints m)
       < length (normalizeLandmarks m landmarks1 (img_width img1) (img_height img1)
                   @ getBoundaryPoints m)"
      by (simp add: normalizeLandmarks_def)
    then show ?thesis
      by (simp add: morph_def Let_def interpolatePoints_short)
  qed
  then show ?thesis by (simp add: interpolatePoints_short)
qed

theorem mismatch_TypeError_witness:
  "length [\<lparr>pt_x = 3, pt_y = 4\<rparr>] < length [\<lparr>pt_x = 0, pt_y = 7\<rparr>, \<lparr>pt_x = 1, pt_y = 2\<rparr>] \<and>
   interpolatePoints [\<lparr>pt_x = 0, pt_y = 7\<rparr>, \<lparr>pt_x = 1, pt_y = 2\<rparr>] [\<lparr>pt_x = 3, pt_y = 4\<rparr>] (1 / 2)
     = Inl TypeError \<and>
   morph constructor \<lparr>img_width = 100, img_height = 100\<rparr> [] \<lparr>img_width = 100, img_height = 100\<rparr> []
     [\<lparr>pt_x = 0, pt_y = 7\<rparr>, \<lparr>pt_x = 1, pt_y = 2\<rparr>] [\<lparr>pt_x = 3, pt_y = 4\<rparr>] (1 / 2)
     = Inl TypeError"
  using mismatch_TypeError
    [of "[\<lparr>pt_x = 3, pt_y = 4\<rparr>]" "[\<lparr>pt_x = 0, pt_y = 7\<rparr>, \<lparr>pt_x = 1, pt_y = 2\<rparr>]" "1 / 2"
        "[\<lparr>pt_x = 3, pt_y = 4\<rparr>]" "[\<lparr>pt_x = 0, pt_y = 7\<rparr>, \<lparr>pt_x = 1, pt_y = 2\<rparr>]"
        constructor "\<lparr>img_width = 100, img_height = 100\<rparr>" "[]"
        "\<lparr>img_width = 100, img_height = 100\<rparr>" "[]"]
  by simp

section \<open>Properties of the point-in-triangle test\<close>






section \<open>Properties of the bilinear sampler\<close>















section \<open>The frame of the triangle warper\<close>

lemma writeData_other: "b' \<noteq> b \<Longrightarrow> writeData st b idx v b' = st b'"
  by (simp add: writeData_def)

lemma writeData_length: "length (writeData st b idx v b') = length (st b')"
  by (simp add: writeData_def)

lemma writeData_nth: "q \<noteq> idx \<Longrightarrow> writeData st b idx v b' ! q = st b' ! q"
  by (simp add: writeData_def)

lemma warpPixel_other:
  "b \<noteq> outputData \<Longrightarrow>
     warpPixel m imgData1 M1 imgData2 M2 outputData dstTri ratio y x st b = st b"
  by (simp add: warpPixel_def Let_def writeData_other)

lemma warpPixel_length:
  "length (warpPixel m imgData1 M1 imgData2 M2 outputData dstTri ratio y x st b) = length (st b)"
  by (simp add: warpPixel_def Let_def writeData_length)

lemma warpPixel_nth:
  assumes "coveredPixel m dstTri x y \<longrightarrow> q \<notin> pixelBytes m x y"
  shows "warpPixel m imgData1 M1 imgData2 M2 outputData dstTri ratio y x st b ! q = st b ! q"
proof (cases "coveredPixel m dstTri x y")
  case False
  then show ?thesis by (auto simp: warpPixel_def coveredPixel_def)
next
  case True
  with assms have "q \<notin> pixelBytes m x y" by simp
  then have "q \<noteq> nat ((y * int (outputWidth m) + x) * 4)"
    "q \<noteq> nat ((y * int (outputWidth m) + x) * 4) + 1"
    "q \<noteq> nat ((y * int (outputWidth m) + x) * 4) + 2"
    "q \<noteq> nat ((y * int (outputWidth m) + x) * 4) + 3"
    by (simp_all add: pixelBytes_def Let_def)
  then show ?thesis
    by (simp add: warpPixel_def Let_def writeData_nth)
qed

lemma fold_row_frame:
  "(b \<noteq> outputData \<longrightarrow>
      fold (warpPixel m imgData1 M1 imgData2 M2 outputData dstTri ratio y) xs st b = st b) \<and>
   length (fold (warpPixel m imgData1 M1 imgData2 M2 outputData dstTri ratio y) xs st b)
     = length (st b) \<and>
   (untouched m dstTri q \<longrightarrow>
      fold (warpPixel m imgData1 M1 imgData2 M2 outputData dstTri ratio y) xs st b ! q = st b ! q)"
proof (induction xs arbitrary: st)
  case Nil
  show ?case by simp
next
  case (Cons x xs)
  show ?case
    using Cons.IH [of "warpPixel m imgData1 M1 imgData2 M2 outputData dstTri ratio y x st"]
      warpPixel_other [of b outputData m imgData1 M1 imgData2 M2 dstTri ratio y x st]
      warpPixel_length [of m imgData1 M1 imgData2 M2 outputData dstTri ratio y x st b]
      warpPixel_nth [of m dstTri x y q imgData1 M1 imgData2 M2 outputData ratio st b]
    by (simp add: untouched_def)
qed

lemma fold_rows_frame:
  "(b \<noteq> outputData \<longrightarrow>
      fold (\<lambda>y. fold (warpPixel m imgData1 M1 imgData2 M2 outputData dstTri ratio y) xs) ys st b
        = st b) \<and>
   length (fold (\<lambda>y. fold (warpPixel m imgData1 M1 imgData2 M2 outputData dstTri ratio y) xs) ys st b)
     = length (st b) \<and>
   (untouched m dstTri q \<longrightarrow>
      fold (\<lambda>y. fold (warpPixel m imgData1 M1 imgData2 M2 outputData dstTri ratio y) xs) ys st b ! q
        = st b ! q)"
proof (induction ys arbitrary: st)
  case Nil
  show ?case by simp
next
  case (Cons y ys)
  show ?case
    using Cons.IH [of "fold (warpPixel m imgData1 M1 imgData2 M2 outputData dstTri ratio y) xs st"]
      fold_row_frame [of b outputData m imgData1 M1 imgData2 M2 dstTri ratio y xs st q]
    by simp
qed

lemma warpTriangle_frame_aux:
  "(b \<noteq> outputData \<longrightarrow>
      warpTriangle m imgData1 srcTri1 imgData2 srcTri2 outputData dstTri ratio st b = st b) \<and>
   length (warpTriangle m imgData1 srcTri1 imgData2 srcTri2 outputData dstTri ratio st b)
     = length (st b) \<and>
   (untouched m dstTri q \<longrightarrow>
      warpTriangle m imgData1 srcTri1 imgData2 srcTri2 outputData dstTri ratio st b ! q
        = st b ! q)"
proof (cases dstTri)
  case (fields d0 d1 d2)
  show ?thesis
    unfolding warpTriangle_def fields prod.case Let_def
    by (rule fold_rows_frame [of b outputData m imgData1 _ imgData2 _ "(d0, d1, d2)", unfolded fields])
qed

lemma pixelBytes_inj:
  assumes "0 \<le> x" "x < int (outputWidth m)" "0 \<le> y"
    and "0 \<le> x'" "x' < int (outputWidth m)" "0 \<le> y'"
    and "q \<in> pixelBytes m x y" "q \<in> pixelBytes m x' y'"
  shows "x = x' \<and> y = y'"
proof -
  let ?W = "int (outputWidth m)"
  have n: "0 \<le> y * ?W + x" "0 \<le> y' * ?W + x'" using assms by simp_all
  from assms(7) n(1) have "int q div 4 = y * ?W + x"
    by (auto simp: pixelBytes_def Let_def)
  moreover from assms(8) n(2) have "int q div 4 = y' * ?W + x'"
    by (auto simp: pixelBytes_def Let_def)
  ultimately have e: "y * ?W + x = y' * ?W + x'" by simp
  have "(y * ?W + x) div ?W = y" "(y * ?W + x) mod ?W = x"
    "(y' * ?W + x') div ?W = y'" "(y' * ?W + x') mod ?W = x'"
    using assms by simp_all
  with e show ?thesis by metis
qed

text \<open>
  C8. \<open>warpTriangle\<close> changes no buffer other than the output buffer, so two source
  buffers that are not the output buffer are left as they were; it keeps the length of
  the output buffer; and it leaves unchanged every byte of the output buffer that does
  not belong to a pixel inside the canvas and inside the destination triangle by
  \<open>pointInTriangle\<close>. In particular the four bytes of a canvas pixel that is outside the
  destination triangle are unchanged.
\<close>

theorem warpTriangle_frame:
  "(\<forall>b. b \<noteq> outputData \<longrightarrow>
      warpTriangle m imgData1 srcTri1 imgData2 srcTri2 outputData dstTri ratio st b = st b) \<and>
   length (warpTriangle m imgData1 srcTri1 imgData2 srcTri2 outputData dstTri ratio st outputData)
     = length (st outputData) \<and>
   (\<forall>q. (\<forall>x y. coveredPixel m dstTri x y \<longrightarrow> q \<notin> pixelBytes m x y) \<longrightarrow>
      warpTriangle m imgData1 srcTri1 imgData2 srcTri2 outputData dstTri ratio st outputData ! q
        = st outputData ! q) \<and>
   (\<forall>x y. 0 \<le> x \<and> x < int (outputWidth m) \<and> 0 \<le> y \<and> y < int (outputHeight m) \<and>
      \<not> pointInTriangle \<lparr>pt_x = real_of_int x, pt_y = real_of_int y\<rparr> dstTri \<longrightarrow>
      (\<forall>q \<in> pixelBytes m x y.
         warpTriangle m imgData1 srcTri1 imgData2 srcTri2 outputData dstTri ratio st outputData ! q
           = st outputData ! q))"
proof (intro conjI allI impI ballI)
  fix b assume "b \<noteq> outputData"
  then show "warpTriangle m imgData1 srcTri1 imgData2 srcTri2 outputData dstTri ratio st b = st b"
    using warpTriangle_frame_aux [of b outputData m imgData1 srcTri1 imgData2 srcTri2 dstTri ratio st]
    by simp
next
  show "length (warpTriangle m imgData1 srcTri1 imgData2 srcTri2 outputData dstTri ratio st outputData)
     = length (st outputData)"
    using warpTriangle_frame_aux [of outputData outputData m imgData1 srcTri1 imgData2 srcTri2 dstTri ratio st]
    by simp
next
  fix q assume "\<forall>x y. coveredPixel m dstTri x y \<longrightarrow> q \<notin> pixelBytes m x y"
  then have "untouched m dstTri q" by (simp add: untouched_def)
  then show "warpTriangle m imgData1 srcTri1 imgData2 srcTri2 outputData dstTri ratio st outputData ! q
        = st outputData ! q"
    using warpTriangle_frame_aux [of outputData outputData m imgData1 srcTri1 imgData2 srcTri2 dstTri ratio st q]
    by simp
next
  fix x y q
  assume a: "0 \<le> x \<and> x < int (outputWidth m) \<and> 0 \<le> y \<and> y < int (outputHeight m) \<and>
      \<not> pointInTriangle \<lparr>pt_x = real_of_int x, pt_y = real_of_int y\<rparr> dstTri"
    and q: "q \<in> pixelBytes m x y"
  have "untouched m dstTri q"
    unfolding untouched_def
  proof (intro allI impI notI)
    fix x' y' assume c: "coveredPixel m dstTri x' y'" and q': "q \<in> pixelBytes m x' y'"
    from c have "0 \<le> x'" "x' < int (outputWidth m)" "0 \<le> y'" by (simp_all add: coveredPixel_def)
    with pixelBytes_inj [of x m y x' y' q] a q q' have "x = x' \<and> y = y'" by simp
    with c a show False by (simp add: coveredPixel_def)
  qed
  then show "warpTriangle m imgData1 srcTri1 imgData2 srcTri2 outputData dstTri ratio st outputData ! q
           = st outputData ! q"
    using warpTriangle_frame_aux [of outputData outputData m imgData1 srcTri1 imgData2 srcTri2 dstTri ratio st q]
    by simp
qed

lemma canvas2_untouched_100:
  "\<forall>x y. coveredPixel canvas2 (P3 ! 0, P3 ! 1, P3 ! 2) x y \<longrightarrow> 100 \<notin> pixelBytes canvas2 x y"
  by (auto simp: coveredPixel_def pixelBytes_def canvas2_def Let_def)

lemma canvas2_outside_11:
  "\<not> pointInTriangle \<lparr>pt_x = real_of_int 1, pt_y = real_of_int 1\<rparr> (P3 ! 0, P3 ! 1, P3 ! 2)"
  by (simp add: P3_def Let_def js_div_def js_ge_def)

theorem warpTriangle_frame_witness:
  "(0 :: nat) \<noteq> 2 \<and>
   warpTriangle canvas2 0 (P3 ! 0, P3 ! 1, P3 ! 2) 1 (P3 ! 0, P3 ! 1, P3 ! 2) 2
     (P3 ! 0, P3 ! 1, P3 ! 2) (1 / 2) (\<lambda>_. replicate 16 0) 0 = replicate 16 0 \<and>
   warpTriangle canvas2 0 (P3 ! 0, P3 ! 1, P3 ! 2) 1 (P3 ! 0, P3 ! 1, P3 ! 2) 2
     (P3 ! 0, P3 ! 1, P3 ! 2) (1 / 2) (\<lambda>_. replicate 16 0) 2 ! 100 = replicate 16 0 ! 100 \<and>
   \<not> pointInTriangle \<lparr>pt_x = real_of_int 1, pt_y = real_of_int 1\<rparr> (P3 ! 0, P3 ! 1, P3 ! 2) \<and>
   15 \<in> pixelBytes canvas2 1 1 \<and>
   warpTriangle canvas2 0 (P3 ! 0, P3 ! 1, P3 ! 2) 1 (P3 ! 0, P3 ! 1, P3 ! 2) 2
     (P3 ! 0, P3 ! 1, P3 ! 2) (1 / 2) (\<lambda>_. replicate 16 0) 2 ! 15 = replicate 16 0 ! 15"
proof -
  let ?T = "(P3 ! 0, P3 ! 1, P3 ! 2)"
  let ?st = "\<lambda>_ :: nat. replicate 16 (0 :: 8 word)"
  note f = warpTriangle_frame [of 2 canvas2 0 ?T 1 ?T ?T "1 / 2" ?st]
  from f have others:
    "\<forall>b. b \<noteq> 2 \<longrightarrow> warpTriangle canvas2 0 ?T 1 ?T 2 ?T (1 / 2) ?st b = ?st b"
    by blast
  from f have bytes:
    "\<forall>q. (\<forall>x y. coveredPixel canvas2 ?T x y \<longrightarrow> q \<notin> pixelBytes canvas2 x y) \<longrightarrow>
       warpTriangle canvas2 0 ?T 1 ?T 2 ?T (1 / 2) ?st 2 ! q = ?st 2 ! q"
    by blast
  from f have pixels:
    "\<forall>x y. 0 \<le> x \<and> x < int (outputWidth canvas2) \<and> 0 \<le> y \<and> y < int (outputHeight canvas2) \<and>
       \<not> pointInTriangle \<lparr>pt_x = real_of_int x, pt_y = real_of_int y\<rparr> ?T \<longrightarrow>
       (\<forall>q \<in> pixelBytes canvas2 x y.
          warpTriangle canvas2 0 ?T 1 ?T 2 ?T (1 / 2) ?st 2 ! q = ?st 2 ! q)"
    by blast
  have m: "15 \<in> pixelBytes canvas2 1 1" by (simp add: pixelBytes_def canvas2_def)
  have c: "(0::int) \<le> 1 \<and> 1 < int (outputWidth canvas2) \<and> (0::int) \<le> 1 \<and>
           1 < int (outputHeight canvas2)"
    by (simp add: canvas2_def)
  from others have 1: "warpTriangle canvas2 0 ?T 1 ?T 2 ?T (1 / 2) ?st 0 = replicate 16 0"
    by simp
  from bytes canvas2_untouched_100
  have 2: "warpTriangle canvas2 0 ?T 1 ?T 2 ?T (1 / 2) ?st 2 ! 100 = replicate 16 0 ! 100"
    by blast
  from pixels c canvas2_outside_11 m
  have 3: "warpTriangle canvas2 0 ?T 1 ?T 2 ?T (1 / 2) ?st 2 ! 15 = replicate 16 0 ! 15"
    by blast
  from 1 2 3 m canvas2_untouched_100 canvas2_outside_11 show ?thesis by simp
qed

section \<open>Properties of the triangulator\<close>

lemma validTri_mono: "i \<le> i' \<Longrightarrow> validTri n i t \<Longrightarrow> validTri n i' t"
  by (auto simp: validTri_def)

lemma validTri_edge:
  assumes "validTri n i t" "e \<in> set (edgesOf t)"
  shows "fst e \<noteq> snd e \<and> (fst e < i \<or> (n \<le> fst e \<and> fst e < n + 3)) \<and>
         (snd e < i \<or> (n \<le> snd e \<and> snd e < n + 3))"
  using assms by (auto simp: validTri_def edgesOf_def)

lemma boundaryPolygon_edges:
  assumes "e \<in> set (boundaryPolygon badTriangles)"
  shows "\<exists>t \<in> set badTriangles. e \<in> set (edgesOf t)"
proof -
  from assms obtain q where "q < length badTriangles" "e \<in> set (edgesOf (badTriangles ! q))"
    by (auto simp: boundaryPolygon_def)
  then show ?thesis using nth_mem by blast
qed

lemma validTri_new:
  assumes "validTri n i t" "e \<in> set (edgesOf t)" "i < n"
  shows "validTri n (Suc i) \<lparr>tri_i = fst e, tri_j = snd e, tri_k = i\<rparr>"
  using validTri_edge [OF assms(1,2)] assms(3) by (auto simp: validTri_def)

lemma insertPoint_valid:
  assumes "i < n" and old: "\<forall>t \<in> set triangles. validTri n i t"
  shows "\<forall>t \<in> set (insertPoint points allPoints i triangles). validTri n (Suc i) t"
proof
  fix t assume "t \<in> set (insertPoint points allPoints i triangles)"
  then consider (kept) "t \<in> set triangles"
    | (new) e where "e \<in> set (boundaryPolygon (filter (isBad allPoints (points ! i)) triangles))"
        "t = \<lparr>tri_i = fst e, tri_j = snd e, tri_k = i\<rparr>"
    by (auto simp: insertPoint_def Let_def)
  then show "validTri n (Suc i) t"
  proof cases
    case kept
    with old show ?thesis using validTri_mono [of i "Suc i" n t] by simp
  next
    case new
    from boundaryPolygon_edges [OF new(1)] obtain b where "b \<in> set triangles" "e \<in> set (edgesOf b)"
      by auto
    with old assms(1) new(2) show ?thesis using validTri_new [of n i b e] by simp
  qed
qed

lemma insertLoop_valid:
  assumes "\<forall>t \<in> set triangles. validTri n 0 t"
  shows "k \<le> n \<Longrightarrow> \<forall>t \<in> set (insertLoop points allPoints [0..<k] triangles). validTri n k t"
proof (induction k)
  case 0
  with assms show ?case by (simp add: insertLoop_def)
next
  case (Suc k)
  then have "\<forall>t \<in> set (insertLoop points allPoints [0..<k] triangles). validTri n k t" by simp
  moreover have "k < n" using Suc.prems by simp
  ultimately have "\<forall>t \<in> set (insertPoint points allPoints k
                      (insertLoop points allPoints [0..<k] triangles)). validTri n (Suc k) t"
    by (rule insertPoint_valid [rotated])
  then show ?case by (simp add: insertLoop_def)
qed

lemma validTri_super: "validTri n 0 \<lparr>tri_i = n, tri_j = n + 1, tri_k = n + 2\<rparr>"
  by (simp add: validTri_def)

lemma insertLoop_bound:
  assumes "t \<in> set (insertLoop points allPoints [0..<n] [\<lparr>tri_i = n, tri_j = n + 1, tri_k = n + 2\<rparr>])"
  shows "tri_i t < n + 3 \<and> tri_j t < n + 3 \<and> tri_k t < n + 3"
proof -
  have "validTri n n t"
    using insertLoop_valid [of "[\<lparr>tri_i = n, tri_j = n + 1, tri_k = n + 2\<rparr>]" n n points allPoints]
      validTri_super [of n] assms by simp
  then show ?thesis by (auto simp: validTri_def)
qed

lemma computeDelaunay_triples:
  assumes "(i, j, k) \<in> set (computeDelaunay points)"
  shows "i < length points \<and> j < length points \<and> k < length points \<and> i \<noteq> j \<and> j \<noteq> k \<and> i \<noteq> k"
proof -
  let ?n = "length points"
  have n3: "\<not> ?n < 3" using assms by (auto simp: computeDelaunay_def Let_def)
  obtain p1 p2 p3 where s: "superTriangle points = (p1, p2, p3)" by (cases "superTriangle points")
  let ?ts = "insertLoop points (points @ [p1, p2, p3]) [0..<?n]
               [\<lparr>tri_i = ?n, tri_j = ?n + 1, tri_k = ?n + 2\<rparr>]"
  from assms n3 s obtain t where t: "t \<in> set ?ts" "tri_i t < ?n" "tri_j t < ?n" "tri_k t < ?n"
    "(i, j, k) = (tri_i t, tri_j t, tri_k t)"
    by (auto simp: computeDelaunay_def Let_def)
  have "validTri ?n ?n t"
    using insertLoop_valid [of "[\<lparr>tri_i = ?n, tri_j = ?n + 1, tri_k = ?n + 2\<rparr>]" ?n ?n points
        "points @ [p1, p2, p3]"] validTri_super [of ?n] t(1) by simp
  with t show ?thesis by (simp add: validTri_def)
qed

text \<open>
  C7. Every index triple returned by \<open>computeDelaunay\<close> has its three indices below the
  number of input points, so no vertex of the super triangle survives, and the three
  indices are pairwise distinct; for fewer than three points the result is empty. This
  holds for every input, the non-collinear ones of at least three points among them.
\<close>

theorem computeDelaunay_indices:
  "(length points < 3 \<longrightarrow> computeDelaunay points = []) \<and>
   (\<forall>(i, j, k) \<in> set (computeDelaunay points).
      i < length points \<and> j < length points \<and> k < length points \<and>
      i \<noteq> j \<and> j \<noteq> k \<and> i \<noteq> k)"
  using computeDelaunay_triples [of _ _ _ points]
  by (auto simp: computeDelaunay_def)

lemmas delaunay_eval =
  insertPoint_def isBad_def inCircumcircle_def boundaryPolygon_def otherTriangles_def
  shared_def edgesOf_def sameEdge_def Let_def

lemma P3_super:
  "superTriangle P3 = (\<lparr>pt_x = - 2, pt_y = - 2\<rparr>, \<lparr>pt_x = 4, pt_y = - 2\<rparr>, \<lparr>pt_x = 1 / 2, pt_y = 5\<rparr>)"
  by (simp add: superTriangle_def Let_def P3_def)

lemma P3_step0:
  "insertPoint P3 (P3 @ [\<lparr>pt_x = - 2, pt_y = - 2\<rparr>, \<lparr>pt_x = 4, pt_y = - 2\<rparr>, \<lparr>pt_x = 1 / 2, pt_y = 5\<rparr>]) 0
     [\<lparr>tri_i = 3, tri_j = 4, tri_k = 5\<rparr>]
   = [\<lparr>tri_i = 3, tri_j = 4, tri_k = 0\<rparr>, \<lparr>tri_i = 4, tri_j = 5, tri_k = 0\<rparr>,
      \<lparr>tri_i = 5, tri_j = 3, tri_k = 0\<rparr>]"
  by (simp add: delaunay_eval P3_def)

lemma P3_step1:
  "insertPoint P3 (P3 @ [\<lparr>pt_x = - 2, pt_y = - 2\<rparr>, \<lparr>pt_x = 4, pt_y = - 2\<rparr>, \<lparr>pt_x = 1 / 2, pt_y = 5\<rparr>]) (Suc 0)
     [\<lparr>tri_i = 3, tri_j = 4, tri_k = 0\<rparr>, \<lparr>tri_i = 4, tri_j = 5, tri_k = 0\<rparr>,
      \<lparr>tri_i = 5, tri_j = 3, tri_k = 0\<rparr>]
   = [\<lparr>tri_i = 5, tri_j = 3, tri_k = 0\<rparr>, \<lparr>tri_i = 3, tri_j = 4, tri_k = Suc 0\<rparr>,
      \<lparr>tri_i = 0, tri_j = 3, tri_k = Suc 0\<rparr>, \<lparr>tri_i = 4, tri_j = 5, tri_k = Suc 0\<rparr>,
      \<lparr>tri_i = 5, tri_j = 0, tri_k = Suc 0\<rparr>]"
  by (simp add: delaunay_eval P3_def)

lemma P3_step2:
  "insertPoint P3 (P3 @ [\<lparr>pt_x = - 2, pt_y = - 2\<rparr>, \<lparr>pt_x = 4, pt_y = - 2\<rparr>, \<lparr>pt_x = 1 / 2, pt_y = 5\<rparr>]) 2
     [\<lparr>tri_i = 5, tri_j = 3, tri_k = 0\<rparr>, \<lparr>tri_i = 3, tri_j = 4, tri_k = Suc 0\<rparr>,
      \<lparr>tri_i = 0, tri_j = 3, tri_k = Suc 0\<rparr>, \<lparr>tri_i = 4, tri_j = 5, tri_k = Suc 0\<rparr>,
      \<lparr>tri_i = 5, tri_j = 0, tri_k = Suc 0\<rparr>]
   = [\<lparr>tri_i = 3, tri_j = 4, tri_k = Suc 0\<rparr>, \<lparr>tri_i = 0, tri_j = 3, tri_k = Suc 0\<rparr>,
      \<lparr>tri_i = 4, tri_j = 5, tri_k = Suc 0\<rparr>, \<lparr>tri_i = 5, tri_j = 3, tri_k = 2\<rparr>,
      \<lparr>tri_i = 3, tri_j = 0, tri_k = 2\<rparr>, \<lparr>tri_i = 0, tri_j = Suc 0, tri_k = 2\<rparr>,
      \<lparr>tri_i = Suc 0, tri_j = 5, tri_k = 2\<rparr>]"
  by (simp add: delaunay_eval P3_def)

lemma P3_length: "length P3 = 3"
  by (simp add: P3_def)

lemma upt_0_3: "[0..<3] = [0, 1, 2]"
  by (simp add: upt_rec)

lemma P3_delaunay: "computeDelaunay P3 = [(0, 1, 2)]"
  by (simp add: computeDelaunay_def P3_length P3_super insertLoop_def Let_def upt_0_3
      P3_step0 P3_step1 P3_step2)

theorem computeDelaunay_indices_witness:
  "length [\<lparr>pt_x = 0, pt_y = 0\<rparr>] < 3 \<and> computeDelaunay [\<lparr>pt_x = 0, pt_y = 0\<rparr>] = [] \<and>
   (0, 1, 2) \<in> set (computeDelaunay P3) \<and>
   (0 :: nat) < length P3 \<and> (1 :: nat) < length P3 \<and> (2 :: nat) < length P3 \<and>
   (0 :: nat) \<noteq> 1 \<and> (1 :: nat) \<noteq> 2 \<and> (0 :: nat) \<noteq> 2"
  using computeDelaunay_indices [of "[\<lparr>pt_x = 0, pt_y = 0\<rparr>]"] computeDelaunay_indices [of P3]
  by (simp add: P3_delaunay)

section \<open>The super triangle\<close>













section \<open>The circumcircle property of the triangulation\<close>

subsection \<open>Circles through the ends of an edge\<close>




































subsection \<open>Edges, corners and the boundary polygon\<close>


lemma corners_perm:
  assumes "corners t u v w"
  shows "(tri_i t = u \<and> tri_j t = v \<and> tri_k t = w) \<or>
         (tri_i t = v \<and> tri_j t = w \<and> tri_k t = u) \<or>
         (tri_i t = w \<and> tri_j t = u \<and> tri_k t = v) \<or>
         (tri_i t = v \<and> tri_j t = u \<and> tri_k t = w) \<or>
         (tri_i t = u \<and> tri_j t = w \<and> tri_k t = v) \<or>
         (tri_i t = w \<and> tri_j t = v \<and> tri_k t = u)"
proof -
  from assms have s: "{tri_i t, tri_j t, tri_k t} = {u, v, w}" and d: "u \<noteq> v" "v \<noteq> w" "u \<noteq> w"
    by (simp_all add: corners_def verts_def)
  from s have "tri_i t \<in> {u, v, w}" "tri_j t \<in> {u, v, w}" "tri_k t \<in> {u, v, w}"
    "u \<in> {tri_i t, tri_j t, tri_k t}" "v \<in> {tri_i t, tri_j t, tri_k t}"
    "w \<in> {tri_i t, tri_j t, tri_k t}"
    by blast+
  with d show ?thesis by auto
qed

lemma corners_proper: "corners t u v w \<Longrightarrow> properTri t"
  using corners_perm [of t u v w] by (auto simp: properTri_def corners_def)



lemma corners_rot: "corners t u v w \<Longrightarrow> corners t v w u"
  by (auto simp: corners_def)

lemma corners_unique: "corners t u v w \<Longrightarrow> corners t u v w' \<Longrightarrow> w = w'"
  by (auto simp: corners_def)












subsection \<open>One round of the insertion loop\<close>

lemma cross_perms:
  "cross v w u = cross u v w" "cross w u v = cross u v w"
  "cross v u w = - cross u v w" "cross u w v = - cross u v w" "cross w v u = - cross u v w"
  by (simp_all add: cross_def algebra_simps)




lemma corners_cross_cases:
  assumes "corners t u v w"
  shows "triCross A t = cross (A ! u) (A ! v) (A ! w) \<or>
         triCross A t = - cross (A ! u) (A ! v) (A ! w)"
  using corners_perm [OF assms]
    cross_perms [where u = "A ! u" and v = "A ! v" and w = "A ! w"]
  by (auto simp: triCross_def)

lemma corners_cross:
  assumes "corners t u v w"
  shows "(triCross A t \<noteq> 0) = (cross (A ! u) (A ! v) (A ! w) \<noteq> 0)"
  using corners_cross_cases [OF assms, of A] by auto




lemma sameSide_sym: "sameSide u v a b = sameSide u v b a"
  by (simp add: sameSide_def mult.commute)




















lemma bnd_sym: "bnd A p ts c w = bnd A p ts w c"
  by (auto simp: bnd_def)





















lemma edgeTris_sym: "edgeTris ts u v = edgeTris ts v u"
  by (auto simp: edgeTris_def)







subsection \<open>The loop and the result\<close>

























end
